theory Spec2Isabelle
  imports Complex_Main "HOL-Library.AList"
begin

section \<open>JavaScript values used by the program\<close>

text \<open>
  A thrown JavaScript exception is a value of \<open>js_error\<close>; every kind carries the text
  that \<open>error.message\<close> reads (\<open>error_message\<close>). A computation that may throw returns \<open>js_error + 'a\<close>,
  with \<open>Inl\<close> for the exception.
\<close>

datatype js_error =
    Error (error_message: string)
  | TypeError (error_message: string)
  | SyntaxError (error_message: string)
  | DOMException (error_message: string)

text \<open>
  The result of a JavaScript division or of \<open>parseInt\<close> is a Number: a finite value, an
  infinity or \<open>NaN\<close>. Finite values are kept exact (a rational); the counters of a post
  are integers, on which \<open>++\<close>, \<open>--\<close> and \<open>+\<close> are exact below \<open>2^53\<close>.
\<close>

datatype js_number = Finite rat | PosInfinity | NegInfinity | NaN

definition js_div :: "int \<Rightarrow> int \<Rightarrow> js_number" where
  "js_div a b =
     (if b = 0 then (if a = 0 then NaN else if 0 < a then PosInfinity else NegInfinity)
      else Finite (of_int a / of_int b))"

subsection \<open>Parsed JSON\<close>

text \<open>
  What \<open>JSON.parse\<close> and \<open>response.json()\<close> give. An object is the list of its
  properties as the text has them; when a key occurs twice the later entry is its value.
\<close>

datatype json =
    JNull
  | JBool bool
  | JNum int
  | JStr string
  | JArr "json list"
  | JObj "(string \<times> json) list"


subsection \<open>Number to string, string to number\<close>

definition digit_char :: "nat \<Rightarrow> char" where
  "digit_char d = ''0123456789'' ! d"

fun show_nat :: "nat \<Rightarrow> string" where
  "show_nat n =
     (if n < 10 then [digit_char n] else show_nat (n div 10) @ [digit_char (n mod 10)])"

declare show_nat.simps [simp del]

text \<open>
  \<open>count.toString()\<close> and the \<open>${n}\<close> of a template literal, on an integer (below
  \<open>10^21\<close>, where JavaScript prints every digit).
\<close>

definition show_int :: "int \<Rightarrow> string" where
  "show_int i = (if i < 0 then CHR ''-'' # show_nat (nat (- i)) else show_nat (nat i))"

definition is_space :: "char \<Rightarrow> bool" where
  "is_space c = (c \<in> set [CHR '' '', CHR 0x09, CHR 0x0A, CHR 0x0B, CHR 0x0C, CHR 0x0D])"

definition is_digit :: "char \<Rightarrow> bool" where
  "is_digit c = (c \<in> set ''0123456789'')"

definition digit_value :: "char \<Rightarrow> nat" where
  "digit_value c = of_char c - 48"

definition digits_value :: "string \<Rightarrow> nat" where
  "digits_value ds = foldl (\<lambda>acc c. 10 * acc + digit_value c) 0 ds"

text \<open>
  \<open>parseInt(s, 10)\<close>: leading white space is skipped, one sign is read, then the longest
  run of decimal digits; with no digit the result is \<open>NaN\<close>. White space is the ASCII
  white space; a string is a list of bytes.
\<close>

definition parseInt :: "string \<Rightarrow> js_number" where
  "parseInt s =
     (let t = dropWhile is_space s;
          neg = (t \<noteq> [] \<and> hd t = CHR ''-'');
          u = (if t \<noteq> [] \<and> (hd t = CHR ''-'' \<or> hd t = CHR ''+'') then tl t else t);
          ds = takeWhile is_digit u
      in if ds = [] then NaN
         else Finite (of_int (if neg then - int (digits_value ds) else int (digits_value ds))))"

section \<open>Domain entities\<close>

record Author =
  name :: string
  imageUrl :: string
  userSince :: string
  channel :: string

text \<open>
  A \<open>SocialPost\<close> as the constructor builds it. \<open>source\<close> and \<open>thumbnail\<close> hold
  whatever value the constructor was given (\<open>None\<close> is \<open>undefined\<close>): the randomized
  source passes on the \<open>image\<close> property of a parsed body as it is. \<open>createdAt\<close> is
  the reading of the clock at construction, in milliseconds.
\<close>

record SocialPost =
  post_id :: string
  source :: "json option"
  thumbnail :: "json option"
  title :: string
  date :: string
  author :: Author
  likes :: int
  dislikes :: int
  createdAt :: int

definition getTotalEngagement :: "SocialPost \<Rightarrow> int" where
  "getTotalEngagement p = likes p + dislikes p"

definition getEngagementRatio :: "SocialPost \<Rightarrow> js_number" where
  "getEngagementRatio p =
     (let total = getTotalEngagement p
      in if 0 < total then js_div (likes p) total else Finite 0)"

text \<open>\<open>addLike\<close> and \<open>addDislike\<close> return the new count and the mutated post.\<close>

definition addLike :: "SocialPost \<Rightarrow> int \<times> SocialPost" where
  "addLike p = (likes p + 1, p\<lparr>likes := likes p + 1\<rparr>)"

definition addDislike :: "SocialPost \<Rightarrow> int \<times> SocialPost" where
  "addDislike p = (dislikes p + 1, p\<lparr>dislikes := dislikes p + 1\<rparr>)"

text \<open>
  \<open>Math.ceil(Math.abs(now - postDate) / (1000 * 60 * 60 * 24))\<close> on integer times, as
  the ceiling of the exact quotient: for a difference below \<open>2^53\<close> milliseconds the
  rounded quotient lies on the same side of every integer as the exact one.
\<close>

definition msPerDay :: int where
  "msPerDay = 1000 * 60 * 60 * 24"

definition diffDays :: "int \<Rightarrow> int \<Rightarrow> int" where
  "diffDays now postDate = - ((- \<bar>now - postDate\<bar>) div msPerDay)"

text \<open>
  \<open>getTimeSincePosted\<close>. The platform's date parser is the parameter \<open>Date_parse\<close>
  (\<open>None\<close> for an invalid date, whose time value is \<open>NaN\<close>); \<open>now\<close> is the reading of
  \<open>new Date()\<close>. With \<open>NaN\<close> every comparison is false and the last branch prints it.
\<close>

definition getTimeSincePosted :: "(string \<Rightarrow> int option) \<Rightarrow> int \<Rightarrow> SocialPost \<Rightarrow> string" where
  "getTimeSincePosted Date_parse now p =
     (case Date_parse (date p) of
        None \<Rightarrow> ''NaN months ago''
      | Some postDate \<Rightarrow>
          (let d = diffDays now postDate
           in if d = 1 then ''1 day ago''
              else if d < 7 then show_int d @ '' days ago''
              else if d < 30 then show_int (d div 7) @ '' weeks ago''
              else show_int (d div 30) @ '' months ago''))"

section \<open>Statements that may throw\<close>

text \<open>
  A statement runs on a state \<open>'st\<close> and either throws or returns a value; the state it
  leaves is returned in both cases. \<open>try_catch\<close> is \<open>try { body } catch (error) { handler }\<close>:
  the handler runs on the state the body left when it threw. The console is part of the
  world of the repository below; the lines that the store and the interaction service
  print are left out of their states.
\<close>

type_synonym ('a, 'st) js = "'st \<Rightarrow> (js_error + 'a) \<times> 'st"

definition return_js :: "'a \<Rightarrow> ('a, 'st) js" where
  "return_js v st = (Inr v, st)"

definition throw_js :: "js_error \<Rightarrow> ('a, 'st) js" where
  "throw_js e st = (Inl e, st)"

definition bind_js :: "('a, 'st) js \<Rightarrow> ('a \<Rightarrow> ('b, 'st) js) \<Rightarrow> ('b, 'st) js" where
  "bind_js m f st = (case m st of (Inl e, st') \<Rightarrow> (Inl e, st') | (Inr v, st') \<Rightarrow> f v st')"

definition try_catch :: "('a, 'st) js \<Rightarrow> (js_error \<Rightarrow> ('a, 'st) js) \<Rightarrow> ('a, 'st) js" where
  "try_catch body handler st =
     (case body st of (Inl e, st') \<Rightarrow> handler e st' | (Inr v, st') \<Rightarrow> (Inr v, st'))"

section \<open>The persisted key-value store\<close>

text \<open>
  The storage medium (\<open>localStorage\<close>) is whatever the platform supplies: a state \<open>'m\<close> and
  four operations on it, each of which may throw (access denied, quota exceeded) and may
  change the state. \<open>getItem\<close> returns \<open>None\<close> for \<open>null\<close>; \<open>Object_keys\<close> is
  \<open>Object.keys(localStorage)\<close>.
\<close>

record 'm Storage =
  getItem :: "string \<Rightarrow> (string option, 'm) js"
  setItem :: "string \<Rightarrow> string \<Rightarrow> (unit, 'm) js"
  removeItem :: "string \<Rightarrow> (unit, 'm) js"
  Object_keys :: "(string list, 'm) js"

text \<open>
  A well-behaved medium, for running the store on concrete inputs: an association list
  with a quota on the number of keys. \<open>setItem\<close> throws when a new key would exceed the
  quota; nothing else throws.
\<close>

record quota_medium =
  entries :: "(string \<times> string) list"
  quota :: nat

definition quota_storage :: "quota_medium Storage" where
  "quota_storage =
     \<lparr> getItem = (\<lambda>k m. (Inr (map_of (entries m) k), m)),
       setItem = (\<lambda>k v m.
          if map_of (entries m) k = None \<and> quota m \<le> length (entries m)
          then (Inl (DOMException ''The quota has been exceeded.''), m)
          else (Inr (), m\<lparr>entries := AList.update k v (entries m)\<rparr>)),
       removeItem = (\<lambda>k m. (Inr (), m\<lparr>entries := AList.delete k (entries m)\<rparr>)),
       Object_keys = (\<lambda>m. (Inr (map fst (entries m)), m)) \<rparr>"

text \<open>A medium to which every access is denied.\<close>

definition denied_storage :: "unit Storage" where
  "denied_storage =
     \<lparr> getItem = (\<lambda>k. throw_js (DOMException ''The operation is insecure.'')),
       setItem = (\<lambda>k v. throw_js (DOMException ''The operation is insecure.'')),
       removeItem = (\<lambda>k. throw_js (DOMException ''The operation is insecure.'')),
       Object_keys = throw_js (DOMException ''The operation is insecure.'') \<rparr>"

subsection \<open>LocalStorageService\<close>

definition LIKES_KEY :: string where
  "LIKES_KEY = ''mockstagram_likes''"

definition DISLIKES_KEY :: string where
  "DISLIKES_KEY = ''mockstagram_dislikes''"

definition THEME_KEY :: string where
  "THEME_KEY = ''mockstagram_theme''"

definition USER_PREFERENCES_KEY :: string where
  "USER_PREFERENCES_KEY = ''mockstagram_user_preferences''"

text \<open>\<open>likes ? parseInt(likes, 10) : 0\<close>: \<open>null\<close> and the empty string are falsy.\<close>

definition parse_counter :: "string option \<Rightarrow> js_number" where
  "parse_counter item =
     (case item of None \<Rightarrow> Finite 0 | Some s \<Rightarrow> if s = [] then Finite 0 else parseInt s)"

definition getLikes :: "'m Storage \<Rightarrow> string \<Rightarrow> (js_number, 'm) js" where
  "getLikes ls postId =
     try_catch
       (bind_js (getItem ls (LIKES_KEY @ ''_'' @ postId))
          (\<lambda>likes. return_js (parse_counter likes)))
       (\<lambda>error. return_js (Finite 0))"

definition setLikes :: "'m Storage \<Rightarrow> string \<Rightarrow> int \<Rightarrow> (bool, 'm) js" where
  "setLikes ls postId count =
     try_catch
       (bind_js (setItem ls (LIKES_KEY @ ''_'' @ postId) (show_int count))
          (\<lambda>_. return_js True))
       (\<lambda>error. return_js False)"

definition getDislikes :: "'m Storage \<Rightarrow> string \<Rightarrow> (js_number, 'm) js" where
  "getDislikes ls postId =
     try_catch
       (bind_js (getItem ls (DISLIKES_KEY @ ''_'' @ postId))
          (\<lambda>dislikes. return_js (parse_counter dislikes)))
       (\<lambda>error. return_js (Finite 0))"

definition setDislikes :: "'m Storage \<Rightarrow> string \<Rightarrow> int \<Rightarrow> (bool, 'm) js" where
  "setDislikes ls postId count =
     try_catch
       (bind_js (setItem ls (DISLIKES_KEY @ ''_'' @ postId) (show_int count))
          (\<lambda>_. return_js True))
       (\<lambda>error. return_js False)"

text \<open>\<open>localStorage.getItem(this.THEME_KEY) || 'light'\<close>.\<close>

definition getTheme :: "'m Storage \<Rightarrow> (string, 'm) js" where
  "getTheme ls =
     try_catch
       (bind_js (getItem ls THEME_KEY)
          (\<lambda>item. return_js (case item of None \<Rightarrow> ''light''
                                | Some s \<Rightarrow> if s = [] then ''light'' else s)))
       (\<lambda>error. return_js ''light'')"

definition setTheme :: "'m Storage \<Rightarrow> string \<Rightarrow> (bool, 'm) js" where
  "setTheme ls theme =
     try_catch
       (bind_js (setItem ls THEME_KEY theme) (\<lambda>_. return_js True))
       (\<lambda>error. return_js False)"

text \<open>
  The preferences are a JSON value. \<open>JSON.parse\<close> and \<open>JSON.stringify\<close> are the
  platform's, taken as parameters; both may throw.
\<close>

definition default_preferences :: json where
  "default_preferences =
     JObj [(''apiMode'', JStr ''custom''),
           (''autoLoadImages'', JBool True),
           (''enableNotifications'', JBool False)]"

definition getUserPreferences :: "(string \<Rightarrow> js_error + json) \<Rightarrow> 'm Storage \<Rightarrow> (json, 'm) js" where
  "getUserPreferences JSON_parse ls =
     try_catch
       (bind_js (getItem ls USER_PREFERENCES_KEY)
          (\<lambda>prefs. case prefs of
               None \<Rightarrow> return_js default_preferences
             | Some s \<Rightarrow>
                 if s = [] then return_js default_preferences
                 else (case JSON_parse s of Inl e \<Rightarrow> throw_js e | Inr v \<Rightarrow> return_js v)))
       (\<lambda>error. return_js default_preferences)"

definition setUserPreferences ::
    "(json \<Rightarrow> js_error + string) \<Rightarrow> 'm Storage \<Rightarrow> json \<Rightarrow> (bool, 'm) js" where
  "setUserPreferences JSON_stringify ls preferences =
     try_catch
       (case JSON_stringify preferences of
          Inl e \<Rightarrow> throw_js e
        | Inr s \<Rightarrow> bind_js (setItem ls USER_PREFERENCES_KEY s) (\<lambda>_. return_js True))
       (\<lambda>error. return_js False)"

definition startsWith :: "string \<Rightarrow> string \<Rightarrow> bool" where
  "startsWith s pre = (take (length pre) s = pre)"

text \<open>The body of \<open>keys.forEach\<close> in \<open>clearAll\<close>; the first exception ends the loop.\<close>

fun clear_keys :: "'m Storage \<Rightarrow> string list \<Rightarrow> (unit, 'm) js" where
  "clear_keys ls [] = return_js ()"
| "clear_keys ls (key # ks) =
     (if startsWith key ''mockstagram_''
      then bind_js (removeItem ls key) (\<lambda>_. clear_keys ls ks)
      else clear_keys ls ks)"

definition clearAll :: "'m Storage \<Rightarrow> (bool, 'm) js" where
  "clearAll ls =
     try_catch
       (bind_js (Object_keys ls)
          (\<lambda>ks. bind_js (clear_keys ls ks) (\<lambda>_. return_js True)))
       (\<lambda>error. return_js False)"

record StorageStats =
  totalKeys :: nat
  mockstagramKeys :: nat
  estimatedSize :: nat

text \<open>
  The body of \<open>keys.forEach\<close> in \<open>getStorageStats\<close>. Reading \<open>.length\<close> of a
  \<open>null\<close> item is a \<open>TypeError\<close>; its message is the engine's, \<open>null_message p\<close> for
  the property \<open>p\<close>.
\<close>

fun count_keys ::
    "(string \<Rightarrow> string) \<Rightarrow> 'm Storage \<Rightarrow> string list \<Rightarrow> StorageStats \<Rightarrow> (StorageStats, 'm) js" where
  "count_keys null_message ls [] stats = return_js stats"
| "count_keys null_message ls (key # ks) stats =
     (if startsWith key ''mockstagram_''
      then bind_js (getItem ls key)
             (\<lambda>item. case item of
                  None \<Rightarrow> throw_js (TypeError (null_message ''length''))
                | Some v \<Rightarrow>
                    count_keys null_message ls ks
                      (stats\<lparr>mockstagramKeys := mockstagramKeys stats + 1,
                             estimatedSize := estimatedSize stats + (length key + length v)\<rparr>))
      else count_keys null_message ls ks stats)"

definition getStorageStats :: "(string \<Rightarrow> string) \<Rightarrow> 'm Storage \<Rightarrow> (StorageStats, 'm) js" where
  "getStorageStats null_message ls =
     try_catch
       (bind_js (Object_keys ls)
          (\<lambda>ks. count_keys null_message ls ks
                  \<lparr>totalKeys = length ks, mockstagramKeys = 0, estimatedSize = 0\<rparr>))
       (\<lambda>error. return_js \<lparr>totalKeys = 0, mockstagramKeys = 0, estimatedSize = 0\<rparr>)"

section \<open>The interaction service\<close>

text \<open>
  The service is constructed with a store object; \<open>likePost\<close> and \<open>dislikePost\<close> call
  one method of it each. The store is injected, so it is any object: a state \<open>'s\<close> and
  the two methods, which return a boolean or throw. \<open>LocalStorageService\<close> is the store
  the components pass. The posts are \<open>SocialPost\<close> objects, whose \<open>addLike\<close> and
  \<open>addDislike\<close> do not throw.
\<close>

record 's Store =
  store_setLikes :: "string \<Rightarrow> int \<Rightarrow> (bool, 's) js"
  store_setDislikes :: "string \<Rightarrow> int \<Rightarrow> (bool, 's) js"

definition LocalStorageService :: "'m Storage \<Rightarrow> 'm Store" where
  "LocalStorageService ls = \<lparr> store_setLikes = setLikes ls, store_setDislikes = setDislikes ls \<rparr>"

record InteractionResult =
  success :: bool
  newCount :: int
  message :: string

text \<open>
  \<open>likePost\<close> and \<open>dislikePost\<close> run on the post (mutated in place) and the state of the
  store. The handler of \<open>catch\<close> reads \<open>post.likes\<close> as the body left it.
\<close>

definition likePost :: "'s Store \<Rightarrow> (InteractionResult, SocialPost \<times> 's) js" where
  "likePost localStorageService =
     try_catch
       (\<lambda>(post, s).
          let (newLikeCount, post1) = addLike post
          in case store_setLikes localStorageService (post_id post1) newLikeCount s of
               (Inl e, s') \<Rightarrow> (Inl e, (post1, s'))
             | (Inr saved, s') \<Rightarrow>
                 if saved
                 then (Inr \<lparr>success = True, newCount = newLikeCount,
                            message = ''Post liked successfully!''\<rparr>, (post1, s'))
                 else (let post2 = post1\<lparr>likes := likes post1 - 1\<rparr>
                       in (Inr \<lparr>success = False, newCount = likes post2,
                                 message = ''Failed to save like preference''\<rparr>, (post2, s'))))
       (\<lambda>error (post, s).
          (Inr \<lparr>success = False, newCount = likes post,
                 message = ''Error processing like''\<rparr>, (post, s)))"

definition dislikePost :: "'s Store \<Rightarrow> (InteractionResult, SocialPost \<times> 's) js" where
  "dislikePost localStorageService =
     try_catch
       (\<lambda>(post, s).
          let (newDislikeCount, post1) = addDislike post
          in case store_setDislikes localStorageService (post_id post1) newDislikeCount s of
               (Inl e, s') \<Rightarrow> (Inl e, (post1, s'))
             | (Inr saved, s') \<Rightarrow>
                 if saved
                 then (Inr \<lparr>success = True, newCount = newDislikeCount,
                            message = ''Post disliked successfully!''\<rparr>, (post1, s'))
                 else (let post2 = post1\<lparr>dislikes := dislikes post1 - 1\<rparr>
                       in (Inr \<lparr>success = False, newCount = dislikes post2,
                                 message = ''Failed to save dislike preference''\<rparr>, (post2, s'))))
       (\<lambda>error (post, s).
          (Inr \<lparr>success = False, newCount = dislikes post,
                 message = ''Error processing dislike''\<rparr>, (post, s)))"

subsection \<open>Engagement statistics\<close>

record EngagementStats =
  totalLikes :: int
  totalDislikes :: int
  totalEngagement :: int
  averageEngagement :: js_number
  mostLikedPost :: "SocialPost option"
  mostEngagedPost :: "SocialPost option"

definition initial_stats :: EngagementStats where
  "initial_stats =
     \<lparr> totalLikes = 0, totalDislikes = 0, totalEngagement = 0, averageEngagement = Finite 0,
       mostLikedPost = None, mostEngagedPost = None \<rparr>"

text \<open>
  The callback of \<open>posts.forEach\<close>, on the statistics and the two running maxima
  \<open>maxLikes\<close> and \<open>maxEngagement\<close>.
\<close>

definition stats_step ::
    "EngagementStats \<times> int \<times> int \<Rightarrow> SocialPost \<Rightarrow> EngagementStats \<times> int \<times> int" where
  "stats_step acc post =
     (case acc of (stats, maxLikes, maxEngagement) \<Rightarrow>
        let stats1 = stats\<lparr>totalLikes := totalLikes stats + likes post,
                           totalDislikes := totalDislikes stats + dislikes post\<rparr>;
            engagement = getTotalEngagement post;
            stats2 = stats1\<lparr>totalEngagement := totalEngagement stats1 + engagement\<rparr>;
            (maxLikes', stats3) =
               (if likes post > maxLikes
                then (likes post, stats2\<lparr>mostLikedPost := Some post\<rparr>)
                else (maxLikes, stats2));
            (maxEngagement', stats4) =
               (if engagement > maxEngagement
                then (engagement, stats3\<lparr>mostEngagedPost := Some post\<rparr>)
                else (maxEngagement, stats3))
        in (stats4, maxLikes', maxEngagement'))"

text \<open>\<open>posts\<close> is \<open>None\<close> when the argument is absent (\<open>null\<close> or \<open>undefined\<close>).\<close>

definition getEngagementStats :: "SocialPost list option \<Rightarrow> EngagementStats" where
  "getEngagementStats posts =
     (case posts of
        None \<Rightarrow> initial_stats
      | Some ps \<Rightarrow>
          if length ps = 0 then initial_stats
          else (case foldl stats_step (initial_stats, 0, 0) ps of
                  (stats, maxLikes, maxEngagement) \<Rightarrow>
                    stats\<lparr>averageEngagement :=
                             js_div (totalEngagement stats) (int (length ps))\<rparr>))"

section \<open>The post repository\<close>

text \<open>
  The world the repository runs in: the clock (its \<open>k\<close>-th reading is \<open>clock k\<close>), the
  network (the outcome of the \<open>k\<close>-th \<open>fetch\<close>: a rejection or a response), the URLs
  requested so far and the console. The type \<open>'b\<close> is what \<open>response.json()\<close> gives
  for the endpoint at hand. \<open>null_read_message p\<close> is the message of the \<open>TypeError\<close>
  that the engine throws when the property \<open>p\<close> of \<open>null\<close> is read; its text differs
  from engine to engine.
\<close>

datatype 'b response = Response (ok: bool) (status: int) (body_json: "js_error + 'b")

datatype console_entry =
    Log string
  | Warn string
  | LogError string js_error

record 'b world =
  clock :: "nat \<Rightarrow> int"
  clock_reads :: nat
  network :: "nat \<Rightarrow> js_error + 'b response"
  requests :: "string list"
  console :: "console_entry list"
  null_read_message :: "string \<Rightarrow> string"

definition Date_now :: "'b world \<Rightarrow> int \<times> 'b world" where
  "Date_now w = (clock w (clock_reads w), w\<lparr>clock_reads := Suc (clock_reads w)\<rparr>)"

definition fetch :: "string \<Rightarrow> 'b world \<Rightarrow> (js_error + 'b response) \<times> 'b world" where
  "fetch url w = (network w (length (requests w)), w\<lparr>requests := requests w @ [url]\<rparr>)"

definition console_write :: "console_entry \<Rightarrow> 'b world \<Rightarrow> 'b world" where
  "console_write entry w = w\<lparr>console := console w @ [entry]\<rparr>"

text \<open>
  \<open>new SocialPost(...)\<close>: the author is rebuilt field by field and \<open>createdAt\<close> reads
  the clock.
\<close>

definition new_SocialPost ::
    "string \<Rightarrow> json option \<Rightarrow> json option \<Rightarrow> string \<Rightarrow> string \<Rightarrow> Author \<Rightarrow> int \<Rightarrow> int \<Rightarrow>
     'b world \<Rightarrow> SocialPost \<times> 'b world" where
  "new_SocialPost i src thumb ttl dt authorData lk dl w =
     (let (now, w') = Date_now w
      in (\<lparr> post_id = i, source = src, thumbnail = thumb, title = ttl, date = dt,
             author = \<lparr> name = name authorData, imageUrl = imageUrl authorData,
                        userSince = userSince authorData, channel = channel authorData \<rparr>,
             likes = lk, dislikes = dl, createdAt = now \<rparr>, w'))"

subsection \<open>The feed\<close>

text \<open>
  A record of the feed, with the fields of the feed's schema; \<open>likes\<close> and \<open>dislikes\<close>
  are optional. The payload is what \<open>response.json()\<close> resolves to, by the cases the code
  tells apart: JSON \<open>null\<close>, or a value whose \<open>photos\<close> property is absent or falsy, is
  truthy but no array, or is an array of records.
\<close>

record PhotoData =
  photo_id :: string
  photo_source :: string
  photo_thumbnail :: string
  photo_title :: string
  photo_date :: string
  photo_author :: Author
  photo_likes :: "int option"
  photo_dislikes :: "int option"

datatype photos_property = PhotosMissing | PhotosNotArray | PhotosArray "PhotoData list"

datatype feed_payload = NullPayload | Payload photos_property

record Repository =
  dataSource :: string
  cache :: "SocialPost list option"
  cacheTimestamp :: "int option"
  cacheExpiry :: int

definition new_SocialPostRepository :: Repository where
  "new_SocialPostRepository =
     \<lparr> dataSource = ''./data/social-posts.json'', cache = None, cacheTimestamp = None,
       cacheExpiry = 5 * 60 * 1000 \<rparr>"

text \<open>
  \<open>this.cache && this.cacheTimestamp && (Date.now() - this.cacheTimestamp) < this.cacheExpiry\<close>:
  \<open>null\<close> and the number \<open>0\<close> are falsy, an array is truthy, and the clock is read only
  when both are truthy.
\<close>

definition isCacheValid :: "Repository \<Rightarrow> 'b world \<Rightarrow> bool \<times> 'b world" where
  "isCacheValid r w =
     (case cache r of
        None \<Rightarrow> (False, w)
      | Some ps \<Rightarrow>
          (case cacheTimestamp r of
             None \<Rightarrow> (False, w)
           | Some t \<Rightarrow>
               if t = 0 then (False, w)
               else (let (now, w') = Date_now w in (now - t < cacheExpiry r, w'))))"

definition clearCache :: "Repository \<Rightarrow> Repository" where
  "clearCache r = r\<lparr>cache := None, cacheTimestamp := None\<rparr>"

text \<open>\<open>photoData.likes || 0\<close>.\<close>

definition or_zero :: "int option \<Rightarrow> int" where
  "or_zero v = (case v of None \<Rightarrow> 0 | Some n \<Rightarrow> if n = 0 then 0 else n)"

fun map_photos :: "PhotoData list \<Rightarrow> 'b world \<Rightarrow> SocialPost list \<times> 'b world" where
  "map_photos [] w = ([], w)"
| "map_photos (photoData # rest) w =
     (let (post, w1) =
            new_SocialPost (photo_id photoData) (Some (JStr (photo_source photoData)))
              (Some (JStr (photo_thumbnail photoData))) (photo_title photoData)
              (photo_date photoData)
              (photo_author photoData) (or_zero (photo_likes photoData))
              (or_zero (photo_dislikes photoData)) w;
          (posts, w2) = map_photos rest w1
      in (post # posts, w2))"

definition format_message :: string where
  "format_message = ''Invalid data format: photos array not found''"

text \<open>The body of \<open>try\<close> in \<open>fetchAll\<close>, on the repository and the world.\<close>

definition fetchAll_body :: "(SocialPost list option, Repository \<times> feed_payload world) js" where
  "fetchAll_body = (\<lambda>(r, w).
     let (valid, w1) = isCacheValid r w
     in if valid
        then (Inr (cache r), (r, console_write (Log ''Returning cached social posts'') w1))
        else
          (let w2 = console_write (Log (''Fetching social posts from: '' @ dataSource r)) w1;
               (res, w3) = fetch (dataSource r) w2
           in case res of
                Inl e \<Rightarrow> (Inl e, (r, w3))
              | Inr response \<Rightarrow>
                  if \<not> ok response
                  then (Inl (Error (''HTTP error! status: '' @ show_int (status response))),
                        (r, w3))
                  else
                    (case body_json response of
                       Inl e \<Rightarrow> (Inl e, (r, w3))
                     | Inr data \<Rightarrow>
                         (case data of
                            NullPayload \<Rightarrow>
                              (Inl (TypeError (null_read_message w3 ''photos'')), (r, w3))
                          | Payload photos \<Rightarrow>
                              (case photos of
                                 PhotosMissing \<Rightarrow> (Inl (Error format_message), (r, w3))
                               | PhotosNotArray \<Rightarrow> (Inl (Error format_message), (r, w3))
                               | PhotosArray raws \<Rightarrow>
                                   (let (posts, w4) = map_photos raws w3;
                                        (now, w5) = Date_now w4
                                    in (Inr (Some posts),
                                        (r\<lparr>cache := Some posts, cacheTimestamp := Some now\<rparr>,
                                         w5))))))))"

definition fetchAll :: "(SocialPost list option, Repository \<times> feed_payload world) js" where
  "fetchAll =
     try_catch fetchAll_body
       (\<lambda>error (r, w).
          (Inl (Error (''Failed to fetch social posts: '' @ error_message error)),
           (r, console_write (LogError ''Error in SocialPostRepository.fetchAll:'' error) w)))"

subsection \<open>The randomized source\<close>










section \<open>Observations on a run\<close>

text \<open>The reading of the clock taken last.\<close>

definition last_reading :: "'b world \<Rightarrow> int" where
  "last_reading w = clock w (clock_reads w - 1)"







section \<open>Concrete inputs\<close>

definition demo_author :: Author where
  "demo_author = \<lparr> name = ''Ann'', imageUrl = ''ann.png'', userSince = ''2019'', channel = ''Foxes'' \<rparr>"

definition demo_post :: SocialPost where
  "demo_post = \<lparr> post_id = ''1'', source = Some (JStr ''a.png''),
      thumbnail = Some (JStr ''a-small.png''), title = ''T'',
      date = ''2024-01-01'', author = demo_author, likes = 5, dislikes = 0, createdAt = 1704067200000 \<rparr>"

definition demo_photo :: PhotoData where
  "demo_photo = \<lparr> photo_id = ''1'', photo_source = ''a.png'', photo_thumbnail = ''a-small.png'',
      photo_title = ''T'', photo_date = ''2024-01-01'', photo_author = demo_author,
      photo_likes = Some 5, photo_dislikes = None \<rparr>"

definition demo_clock :: "nat \<Rightarrow> int" where
  "demo_clock k = 1704067200000 + 1000 * int k"

text \<open>The message of one engine for a read of \<open>null\<close>.\<close>

definition demo_null_read_message :: "string \<Rightarrow> string" where
  "demo_null_read_message p =
     ''Cannot read properties of null (reading '' @ [CHR 0x27] @ p @ [CHR 0x27] @ '')''"

definition feed_world :: "feed_payload \<Rightarrow> feed_payload world" where
  "feed_world payload =
     \<lparr> clock = demo_clock, clock_reads = 0,
       network = (\<lambda>k. Inr (Response True 200 (Inr payload))),
       requests = [], console = [], null_read_message = demo_null_read_message \<rparr>"

definition cached_repository :: Repository where
  "cached_repository =
     new_SocialPostRepository\<lparr>cache := Some [demo_post], cacheTimestamp := Some 1704067201000\<rparr>"

definition after_first_fetch :: "feed_payload world" where
  "after_first_fetch =
     (feed_world (Payload (PhotosArray [demo_photo])))
       \<lparr> clock_reads := 2, requests := [''./data/social-posts.json''],
         console := [Log ''Fetching social posts from: ./data/social-posts.json''] \<rparr>"

definition demo_parse :: "string \<Rightarrow> int option" where
  "demo_parse s = (if s = ''2024-01-01'' then Some 1704067200000 else None)"

definition throwing_store :: "unit Store" where
  "throwing_store =
     \<lparr> store_setLikes = (\<lambda>postId count. throw_js (Error ''storage unavailable'')),
       store_setDislikes = (\<lambda>postId count. throw_js (Error ''storage unavailable'')) \<rparr>"






section \<open>Verified properties\<close>

lemma show_small: "show_int 6 = ''6''" "show_int 1 = ''1''"
  by (simp_all add: show_int_def show_nat.simps digit_char_def)

subsection \<open>Entities\<close>

lemma diffDays_bucket:
  assumes "(n - 1) * msPerDay < now - t" "now - t \<le> n * msPerDay" "t < now"
  shows "diffDays now t = n"
proof -
  have D: "0 < msPerDay" by (simp add: msPerDay_def)
  have e: "\<bar>now - t\<bar> = now - t" using assms(3) by simp
  have "(- (now - t)) div msPerDay = - n"
  proof (rule int_div_pos_eq)
    show "- (now - t) = msPerDay * (- n) + (n * msPerDay - (now - t))"
      by (simp add: algebra_simps)
    show "0 \<le> n * msPerDay - (now - t)" using assms(2) by simp
    show "n * msPerDay - (now - t) < msPerDay" using assms(1) by (simp add: algebra_simps)
  qed
  then show ?thesis by (simp add: diffDays_def e)
qed

lemma diffDays_exact: "0 < k \<Longrightarrow> diffDays (t + k * msPerDay) t = k"
  by (rule diffDays_bucket) (simp_all add: algebra_simps msPerDay_def)

text \<open>
  C7. For a post whose date parses to a time \<open>t\<close> in the past, \<open>getTimeSincePosted\<close>
  returns \<open>1 day ago\<close> at exactly one elapsed day, \<open>6 days ago\<close> at six, \<open>1 weeks ago\<close>
  at seven and \<open>1 months ago\<close> at thirty. In general, with \<open>n\<close> the elapsed days rounded
  up (\<open>(n - 1)\<close> days \<open><\<close> elapsed \<open>\<le> n\<close> days), the result is \<open>1 day ago\<close> for
  \<open>n = 1\<close>, \<open>n days ago\<close> below 7, \<open>floor (n / 7) weeks ago\<close> below 30, and
  \<open>floor (n / 30) months ago\<close> otherwise.
\<close>

theorem time_since_posted_buckets:
  assumes "Date_parse (date p) = Some t" and "t < now"
  shows "(now - t = msPerDay \<longrightarrow> getTimeSincePosted Date_parse now p = ''1 day ago'')
       \<and> (now - t = 6 * msPerDay \<longrightarrow> getTimeSincePosted Date_parse now p = ''6 days ago'')
       \<and> (now - t = 7 * msPerDay \<longrightarrow> getTimeSincePosted Date_parse now p = ''1 weeks ago'')
       \<and> (now - t = 30 * msPerDay \<longrightarrow> getTimeSincePosted Date_parse now p = ''1 months ago'')
       \<and> (\<forall>n. (n - 1) * msPerDay < now - t \<and> now - t \<le> n * msPerDay \<longrightarrow>
             getTimeSincePosted Date_parse now p =
               (if n = 1 then ''1 day ago''
                else if n < 7 then show_int n @ '' days ago''
                else if n < 30 then show_int (n div 7) @ '' weeks ago''
                else show_int (n div 30) @ '' months ago''))"
proof -
  have gen: "getTimeSincePosted Date_parse now p =
               (if n = 1 then ''1 day ago''
                else if n < 7 then show_int n @ '' days ago''
                else if n < 30 then show_int (n div 7) @ '' weeks ago''
                else show_int (n div 30) @ '' months ago'')"
    if "(n - 1) * msPerDay < now - t" "now - t \<le> n * msPerDay" for n
    using diffDays_bucket [OF that assms(2)] assms(1)
    by (simp add: getTimeSincePosted_def Let_def)
  have ex: "getTimeSincePosted Date_parse now p =
               (if k = 1 then ''1 day ago''
                else if k < 7 then show_int k @ '' days ago''
                else if k < 30 then show_int (k div 7) @ '' weeks ago''
                else show_int (k div 30) @ '' months ago'')"
    if "now - t = k * msPerDay" for k
    by (rule gen) (simp_all add: that algebra_simps msPerDay_def)
  show ?thesis
    using ex [of 1] ex [of 6] ex [of 7] ex [of 30] gen
    by (simp add: show_small)
qed

theorem time_since_posted_buckets_witness:
  "getTimeSincePosted demo_parse (1704067200000 + msPerDay) demo_post = ''1 day ago''
   \<and> getTimeSincePosted demo_parse (1704067200000 + 6 * msPerDay) demo_post = ''6 days ago''
   \<and> getTimeSincePosted demo_parse (1704067200000 + 7 * msPerDay) demo_post = ''1 weeks ago''
   \<and> getTimeSincePosted demo_parse (1704067200000 + 30 * msPerDay) demo_post = ''1 months ago''
   \<and> getTimeSincePosted demo_parse (1704067200000 + 6 * msPerDay - 1) demo_post = ''6 days ago''"
proof -
  have p: "demo_parse (date demo_post) = Some 1704067200000"
    by (simp add: demo_parse_def demo_post_def)
  have a: "(1704067200000::int) < 1704067200000 + msPerDay"
    "(1704067200000::int) < 1704067200000 + 6 * msPerDay"
    "(1704067200000::int) < 1704067200000 + 7 * msPerDay"
    "(1704067200000::int) < 1704067200000 + 30 * msPerDay"
    "(1704067200000::int) < 1704067200000 + 6 * msPerDay - 1"
    by (simp_all add: msPerDay_def)
  note t = time_since_posted_buckets [of demo_parse demo_post 1704067200000, OF p]
  from t [OF a(1)] have
    "getTimeSincePosted demo_parse (1704067200000 + msPerDay) demo_post = ''1 day ago''"
    by simp
  moreover from t [OF a(2)] have
    "getTimeSincePosted demo_parse (1704067200000 + 6 * msPerDay) demo_post = ''6 days ago''"
    by simp
  moreover from t [OF a(3)] have
    "getTimeSincePosted demo_parse (1704067200000 + 7 * msPerDay) demo_post = ''1 weeks ago''"
    by simp
  moreover from t [OF a(4)] have
    "getTimeSincePosted demo_parse (1704067200000 + 30 * msPerDay) demo_post = ''1 months ago''"
    by simp
  moreover from t [OF a(5), THEN conjunct2, THEN conjunct2, THEN conjunct2, THEN conjunct2,
      THEN spec, of 6] have
    "getTimeSincePosted demo_parse (1704067200000 + 6 * msPerDay - 1) demo_post = ''6 days ago''"
    by (simp add: msPerDay_def show_small)
  ultimately show ?thesis by simp
qed

text \<open>
  C8. For every post, \<open>getTotalEngagement\<close> is \<open>likes + dislikes\<close>; \<open>getEngagementRatio\<close>
  is \<open>likes\<close> divided by that total when the total is positive and \<open>0\<close> when it is
  \<open>0\<close>. The result is always finite: the division is never made with a zero divisor,
  which would give \<open>NaN\<close> or an infinity.
\<close>

theorem engagement_ratio_safe:
  "getTotalEngagement p = likes p + dislikes p
   \<and> (0 < getTotalEngagement p \<longrightarrow>
        getEngagementRatio p = Finite (of_int (likes p) / of_int (getTotalEngagement p)))
   \<and> (getTotalEngagement p = 0 \<longrightarrow> getEngagementRatio p = Finite 0)
   \<and> (\<exists>q. getEngagementRatio p = Finite q)"
  by (simp add: getTotalEngagement_def getEngagementRatio_def js_div_def Let_def)

theorem engagement_ratio_safe_witness:
  "getTotalEngagement demo_post = 5 \<and> getEngagementRatio demo_post = Finite 1
   \<and> getEngagementRatio (demo_post\<lparr>likes := 0\<rparr>) = Finite 0
   \<and> getEngagementRatio (demo_post\<lparr>dislikes := 15\<rparr>) = Finite (1 / 4)"
  using engagement_ratio_safe [of demo_post] engagement_ratio_safe [of "demo_post\<lparr>likes := 0\<rparr>"]
    engagement_ratio_safe [of "demo_post\<lparr>dislikes := 15\<rparr>"]
  by (simp add: demo_post_def)

subsection \<open>The store\<close>

lemma try_catch_total:
  "\<not> isl (fst (try_catch body (\<lambda>error. return_js v) m))"
  by (simp add: try_catch_def return_js_def split: prod.splits sum.splits)

text \<open>
  C9. For every post id and every behaviour of the storage medium, the counter reads
  return \<open>0\<close> when the key is absent and when the read throws, the counter writes return
  \<open>false\<close> when the write throws, and none of the ten operations of the store throws
  (its result is never \<open>Inl\<close>).
\<close>

theorem store_never_throws:
  "(getItem ls (LIKES_KEY @ ''_'' @ postId) m = (Inr None, m') \<longrightarrow>
      getLikes ls postId m = (Inr (Finite 0), m'))
   \<and> (getItem ls (LIKES_KEY @ ''_'' @ postId) m = (Inl e, m') \<longrightarrow>
      getLikes ls postId m = (Inr (Finite 0), m'))
   \<and> (getItem ls (DISLIKES_KEY @ ''_'' @ postId) m = (Inr None, m') \<longrightarrow>
      getDislikes ls postId m = (Inr (Finite 0), m'))
   \<and> (getItem ls (DISLIKES_KEY @ ''_'' @ postId) m = (Inl e, m') \<longrightarrow>
      getDislikes ls postId m = (Inr (Finite 0), m'))
   \<and> (setItem ls (LIKES_KEY @ ''_'' @ postId) (show_int count) m = (Inl e, m') \<longrightarrow>
      setLikes ls postId count m = (Inr False, m'))
   \<and> (setItem ls (DISLIKES_KEY @ ''_'' @ postId) (show_int count) m = (Inl e, m') \<longrightarrow>
      setDislikes ls postId count m = (Inr False, m'))
   \<and> \<not> isl (fst (getLikes ls postId m))
   \<and> \<not> isl (fst (setLikes ls postId count m))
   \<and> \<not> isl (fst (getDislikes ls postId m))
   \<and> \<not> isl (fst (setDislikes ls postId count m))
   \<and> \<not> isl (fst (getTheme ls m))
   \<and> \<not> isl (fst (setTheme ls theme m))
   \<and> \<not> isl (fst (getUserPreferences JSON_parse ls m))
   \<and> \<not> isl (fst (setUserPreferences JSON_stringify ls preferences m))
   \<and> \<not> isl (fst (clearAll ls m))
   \<and> \<not> isl (fst (getStorageStats null_message ls m))"
proof -
  have reads: "getItem ls (LIKES_KEY @ ''_'' @ postId) m = (Inr None, m') \<longrightarrow>
      getLikes ls postId m = (Inr (Finite 0), m')"
    "getItem ls (LIKES_KEY @ ''_'' @ postId) m = (Inl e, m') \<longrightarrow>
      getLikes ls postId m = (Inr (Finite 0), m')"
    "getItem ls (DISLIKES_KEY @ ''_'' @ postId) m = (Inr None, m') \<longrightarrow>
      getDislikes ls postId m = (Inr (Finite 0), m')"
    "getItem ls (DISLIKES_KEY @ ''_'' @ postId) m = (Inl e, m') \<longrightarrow>
      getDislikes ls postId m = (Inr (Finite 0), m')"
    by (simp_all add: getLikes_def getDislikes_def try_catch_def bind_js_def return_js_def
        parse_counter_def)
  have writes: "setItem ls (LIKES_KEY @ ''_'' @ postId) (show_int count) m = (Inl e, m') \<longrightarrow>
      setLikes ls postId count m = (Inr False, m')"
    "setItem ls (DISLIKES_KEY @ ''_'' @ postId) (show_int count) m = (Inl e, m') \<longrightarrow>
      setDislikes ls postId count m = (Inr False, m')"
    by (simp_all add: setLikes_def setDislikes_def try_catch_def bind_js_def return_js_def)
  have total: "\<not> isl (fst (getLikes ls postId m))"
    "\<not> isl (fst (setLikes ls postId count m))"
    "\<not> isl (fst (getDislikes ls postId m))"
    "\<not> isl (fst (setDislikes ls postId count m))"
    "\<not> isl (fst (getTheme ls m))"
    "\<not> isl (fst (setTheme ls theme m))"
    "\<not> isl (fst (getUserPreferences JSON_parse ls m))"
    "\<not> isl (fst (setUserPreferences JSON_stringify ls preferences m))"
    "\<not> isl (fst (clearAll ls m))"
    "\<not> isl (fst (getStorageStats null_message ls m))"
    unfolding getLikes_def setLikes_def getDislikes_def setDislikes_def getTheme_def
      setTheme_def getUserPreferences_def setUserPreferences_def clearAll_def
      getStorageStats_def
    by (rule try_catch_total)+
  from reads writes total show ?thesis by blast
qed

theorem store_never_throws_witness:
  "getLikes denied_storage ''1'' () = (Inr (Finite 0), ())
   \<and> setLikes denied_storage ''1'' 6 () = (Inr False, ())
   \<and> getLikes quota_storage ''1'' \<lparr>entries = [], quota = 1\<rparr> =
       (Inr (Finite 0), \<lparr>entries = [], quota = 1\<rparr>)"
proof -
  have a: "getItem denied_storage (LIKES_KEY @ ''_'' @ ''1'') () =
             (Inl (DOMException ''The operation is insecure.''), ())"
    by (simp add: denied_storage_def throw_js_def)
  have b: "setItem denied_storage (LIKES_KEY @ ''_'' @ ''1'') (show_int 6) () =
             (Inl (DOMException ''The operation is insecure.''), ())"
    by (simp add: denied_storage_def throw_js_def)
  have c: "getItem quota_storage (LIKES_KEY @ ''_'' @ ''1'') \<lparr>entries = [], quota = 1\<rparr> =
             (Inr None, \<lparr>entries = [], quota = 1\<rparr>)"
    by (simp add: quota_storage_def)
  show ?thesis
    using store_never_throws [of denied_storage "''1''" "()" "()"
        "DOMException ''The operation is insecure.''" 6, THEN conjunct2, THEN conjunct1,
        rule_format, OF a]
      store_never_throws [of denied_storage "''1''" "()" "()"
        "DOMException ''The operation is insecure.''" 6, THEN conjunct2, THEN conjunct2,
        THEN conjunct2, THEN conjunct2, THEN conjunct1, rule_format, OF b]
      store_never_throws [of quota_storage "''1''" "\<lparr>entries = [], quota = 1\<rparr>"
        "\<lparr>entries = [], quota = 1\<rparr>", THEN conjunct1, rule_format, OF c]
    by simp
qed

subsection \<open>Like and dislike\<close>

text \<open>
  C1. For every post and every store: when the write of the store returns \<open>true\<close>,
  \<open>likePost\<close> leaves \<open>likes\<close> incremented by exactly one and returns success with the
  incremented count; when the write returns \<open>false\<close>, the post after the call equals the
  post before it (the increment is rolled back) and the result is a failure carrying the
  restored count.
\<close>

theorem like_persist_or_rollback:
  "(store_setLikes st (post_id post) (likes post + 1) s = (Inr True, s') \<longrightarrow>
      likePost st (post, s) =
        (Inr \<lparr>success = True, newCount = likes post + 1, message = ''Post liked successfully!''\<rparr>,
         (post\<lparr>likes := likes post + 1\<rparr>, s')))
   \<and> (store_setLikes st (post_id post) (likes post + 1) s = (Inr False, s') \<longrightarrow>
      likePost st (post, s) =
        (Inr \<lparr>success = False, newCount = likes post, message = ''Failed to save like preference''\<rparr>,
         (post, s')))"
  by (simp add: likePost_def try_catch_def addLike_def Let_def)

theorem like_persist_or_rollback_witness:
  "likePost (LocalStorageService quota_storage) (demo_post, \<lparr>entries = [], quota = 1\<rparr>) =
     (Inr \<lparr>success = True, newCount = 6, message = ''Post liked successfully!''\<rparr>,
      (demo_post\<lparr>likes := 6\<rparr>, \<lparr>entries = [(''mockstagram_likes_1'', ''6'')], quota = 1\<rparr>))
   \<and> likePost (LocalStorageService quota_storage) (demo_post, \<lparr>entries = [], quota = 0\<rparr>) =
     (Inr \<lparr>success = False, newCount = 5, message = ''Failed to save like preference''\<rparr>,
      (demo_post, \<lparr>entries = [], quota = 0\<rparr>))"
proof -
  have t: "store_setLikes (LocalStorageService quota_storage) (post_id demo_post)
             (likes demo_post + 1) \<lparr>entries = [], quota = 1\<rparr> =
           (Inr True, \<lparr>entries = [(''mockstagram_likes_1'', ''6'')], quota = 1\<rparr>)"
    by (simp add: LocalStorageService_def setLikes_def quota_storage_def try_catch_def
        bind_js_def return_js_def demo_post_def LIKES_KEY_def show_small)
  have f: "store_setLikes (LocalStorageService quota_storage) (post_id demo_post)
             (likes demo_post + 1) \<lparr>entries = [], quota = 0\<rparr> =
           (Inr False, \<lparr>entries = [], quota = 0\<rparr>)"
    by (simp add: LocalStorageService_def setLikes_def quota_storage_def try_catch_def
        bind_js_def return_js_def demo_post_def LIKES_KEY_def show_small)
  have l: "likes demo_post = 5" by (simp add: demo_post_def)
  show ?thesis
    using like_persist_or_rollback [THEN conjunct1, rule_format, OF t]
      like_persist_or_rollback [THEN conjunct2, rule_format, OF f]
    by (simp add: l)
qed

text \<open>
  Whatever the store does, \<open>likePost\<close> and \<open>dislikePost\<close> return a result and do not
  throw. When the write throws, the result carries the incremented count and the post
  keeps the increment.
\<close>

lemma like_dislike_never_throw:
  "\<not> isl (fst (likePost st (post, s))) \<and> \<not> isl (fst (dislikePost st (post, s)))"
  by (simp add: likePost_def dislikePost_def try_catch_def addLike_def addDislike_def Let_def
      split: prod.splits sum.splits)

lemma like_after_throwing_write:
  "store_setLikes st (post_id post) (likes post + 1) s = (Inl e, s') \<Longrightarrow>
   likePost st (post, s) =
     (Inr \<lparr>success = False, newCount = likes post + 1, message = ''Error processing like''\<rparr>,
      (post\<lparr>likes := likes post + 1\<rparr>, s'))"
  by (simp add: likePost_def try_catch_def addLike_def Let_def)

lemma dislike_after_throwing_write:
  "store_setDislikes st (post_id post) (dislikes post + 1) s = (Inl e, s') \<Longrightarrow>
   dislikePost st (post, s) =
     (Inr \<lparr>success = False, newCount = dislikes post + 1,
            message = ''Error processing dislike''\<rparr>,
      (post\<lparr>dislikes := dislikes post + 1\<rparr>, s'))"
  by (simp add: dislikePost_def try_catch_def addDislike_def Let_def)

text \<open>
  C2. The handler of \<open>catch\<close> reports \<open>post.likes\<close> as the body left it and does not
  roll back. With a store whose write throws, the exception is caught and a failure is
  returned, but on a post with 5 likes the reported count is 6 and the post keeps 6
  likes; the branch for a write that returns \<open>false\<close> does roll back. \<open>dislikePost\<close> does
  the same on \<open>dislikes\<close>.
\<close>

theorem fault_after_increment_not_rolled_back:
  "likePost throwing_store (demo_post, ()) =
     (Inr \<lparr>success = False, newCount = 6, message = ''Error processing like''\<rparr>,
      (demo_post\<lparr>likes := 6\<rparr>, ()))
   \<and> dislikePost throwing_store (demo_post, ()) =
     (Inr \<lparr>success = False, newCount = 1, message = ''Error processing dislike''\<rparr>,
      (demo_post\<lparr>dislikes := 1\<rparr>, ()))"
  by (simp add: likePost_def dislikePost_def try_catch_def addLike_def addDislike_def
      throwing_store_def throw_js_def demo_post_def)

subsection \<open>Engagement statistics\<close>

lemma stats_step_maxLikes:
  "fst (snd (stats_step (st, ml, me) p)) = (if likes p > ml then likes p else ml)"
  by (simp add: stats_step_def Let_def split: prod.splits)

lemma stats_step_maxEngagement:
  "snd (snd (stats_step (st, ml, me) p)) =
     (if getTotalEngagement p > me then getTotalEngagement p else me)"
  by (simp add: stats_step_def Let_def split: prod.splits)

lemma stats_step_mostLiked:
  "mostLikedPost (fst (stats_step (st, ml, me) p)) =
     (if likes p > ml then Some p else mostLikedPost st)"
  by (simp add: stats_step_def Let_def split: prod.splits)

lemma stats_step_mostEngaged:
  "mostEngagedPost (fst (stats_step (st, ml, me) p)) =
     (if getTotalEngagement p > me then Some p else mostEngagedPost st)"
  by (simp add: stats_step_def Let_def split: prod.splits)

lemma stats_step_cases:
  obtains st' ml' me' where "stats_step (st, ml, me) p = (st', ml', me')"
    "ml' = (if likes p > ml then likes p else ml)"
    "me' = (if getTotalEngagement p > me then getTotalEngagement p else me)"
    "mostLikedPost st' = (if likes p > ml then Some p else mostLikedPost st)"
    "mostEngagedPost st' = (if getTotalEngagement p > me then Some p else mostEngagedPost st)"
proof -
  obtain st' ml' me' where e: "stats_step (st, ml, me) p = (st', ml', me')"
    by (cases "stats_step (st, ml, me) p") auto
  show thesis
    using stats_step_maxLikes [of st ml me p] stats_step_maxEngagement [of st ml me p]
      stats_step_mostLiked [of st ml me p] stats_step_mostEngaged [of st ml me p]
    by (intro that [OF e]) (simp_all add: e)
qed

text \<open>Posts that do not exceed the running maxima leave both winners as they are.\<close>

lemma fold_keeps_liked:
  "\<forall>q \<in> set ys. likes q \<le> ml \<Longrightarrow>
   mostLikedPost (fst (foldl stats_step (st, ml, me) ys)) = mostLikedPost st"
proof (induction ys arbitrary: st ml me)
  case Nil
  then show ?case by simp
next
  case (Cons y ys)
  obtain st' ml' me' where e: "stats_step (st, ml, me) y = (st', ml', me')"
    and m: "ml' = (if likes y > ml then likes y else ml)"
    and l: "mostLikedPost st' = (if likes y > ml then Some y else mostLikedPost st)"
    by (rule stats_step_cases)
  from Cons.prems have "ml' = ml" "mostLikedPost st' = mostLikedPost st"
    using m l by auto
  with Cons.IH [of ml' st' me'] Cons.prems e show ?case by simp
qed

lemma fold_keeps_engaged:
  "\<forall>q \<in> set ys. getTotalEngagement q \<le> me \<Longrightarrow>
   mostEngagedPost (fst (foldl stats_step (st, ml, me) ys)) = mostEngagedPost st"
proof (induction ys arbitrary: st ml me)
  case Nil
  then show ?case by simp
next
  case (Cons y ys)
  obtain st' ml' me' where e: "stats_step (st, ml, me) y = (st', ml', me')"
    and m: "me' = (if getTotalEngagement y > me then getTotalEngagement y else me)"
    and l: "mostEngagedPost st' =
              (if getTotalEngagement y > me then Some y else mostEngagedPost st)"
    by (rule stats_step_cases)
  from Cons.prems have "me' = me" "mostEngagedPost st' = mostEngagedPost st"
    using m l by auto
  with Cons.IH [of me' st' ml'] Cons.prems e show ?case by simp
qed

text \<open>Posts below a bound keep the running maximum below it.\<close>

lemma fold_below_liked:
  "ml < L \<Longrightarrow> \<forall>q \<in> set xs. likes q < L \<Longrightarrow>
   fst (snd (foldl stats_step (st, ml, me) xs)) < L"
proof (induction xs arbitrary: st ml me)
  case Nil
  then show ?case by simp
next
  case (Cons x xs)
  obtain st' ml' me' where e: "stats_step (st, ml, me) x = (st', ml', me')"
    and m: "ml' = (if likes x > ml then likes x else ml)"
    by (rule stats_step_cases)
  from Cons.prems have "ml' < L" using m by auto
  with Cons.IH [of ml' st' me'] Cons.prems e show ?case by simp
qed

lemma fold_below_engaged:
  "me < L \<Longrightarrow> \<forall>q \<in> set xs. getTotalEngagement q < L \<Longrightarrow>
   snd (snd (foldl stats_step (st, ml, me) xs)) < L"
proof (induction xs arbitrary: st ml me)
  case Nil
  then show ?case by simp
next
  case (Cons x xs)
  obtain st' ml' me' where e: "stats_step (st, ml, me) x = (st', ml', me')"
    and m: "me' = (if getTotalEngagement x > me then getTotalEngagement x else me)"
    by (rule stats_step_cases)
  from Cons.prems have "me' < L" using m by auto
  with Cons.IH [of me' st' ml'] Cons.prems e show ?case by simp
qed

lemma first_maximum_liked:
  assumes "0 < likes p" "\<forall>q \<in> set xs. likes q < likes p" "\<forall>q \<in> set ys. likes q \<le> likes p"
  shows "mostLikedPost (fst (foldl stats_step (initial_stats, 0, 0) (xs @ p # ys))) = Some p"
proof -
  obtain st1 ml1 me1 where a: "foldl stats_step (initial_stats, 0, 0) xs = (st1, ml1, me1)"
    by (cases "foldl stats_step (initial_stats, 0, 0) xs") auto
  have b: "ml1 < likes p"
    using fold_below_liked [OF assms(1) assms(2), of initial_stats 0] a by simp
  obtain st2 ml2 me2 where c: "stats_step (st1, ml1, me1) p = (st2, ml2, me2)"
    and d: "ml2 = (if likes p > ml1 then likes p else ml1)"
    and e: "mostLikedPost st2 = (if likes p > ml1 then Some p else mostLikedPost st1)"
    by (rule stats_step_cases)
  from b d e have f: "ml2 = likes p" "mostLikedPost st2 = Some p" by auto
  have "mostLikedPost (fst (foldl stats_step (st2, ml2, me2) ys)) = mostLikedPost st2"
    by (rule fold_keeps_liked) (simp add: f assms(3))
  then show ?thesis by (simp add: a c f)
qed

lemma first_maximum_engaged:
  assumes "0 < getTotalEngagement p" "\<forall>q \<in> set xs. getTotalEngagement q < getTotalEngagement p"
    "\<forall>q \<in> set ys. getTotalEngagement q \<le> getTotalEngagement p"
  shows "mostEngagedPost (fst (foldl stats_step (initial_stats, 0, 0) (xs @ p # ys))) = Some p"
proof -
  obtain st1 ml1 me1 where a: "foldl stats_step (initial_stats, 0, 0) xs = (st1, ml1, me1)"
    by (cases "foldl stats_step (initial_stats, 0, 0) xs") auto
  have b: "me1 < getTotalEngagement p"
    using fold_below_engaged [OF assms(1) assms(2), of initial_stats 0] a by simp
  obtain st2 ml2 me2 where c: "stats_step (st1, ml1, me1) p = (st2, ml2, me2)"
    and d: "me2 = (if getTotalEngagement p > me1 then getTotalEngagement p else me1)"
    and e: "mostEngagedPost st2 =
              (if getTotalEngagement p > me1 then Some p else mostEngagedPost st1)"
    by (rule stats_step_cases)
  from b d e have f: "me2 = getTotalEngagement p" "mostEngagedPost st2 = Some p" by auto
  have "mostEngagedPost (fst (foldl stats_step (st2, ml2, me2) ys)) = mostEngagedPost st2"
    by (rule fold_keeps_engaged) (simp add: f assms(3))
  then show ?thesis by (simp add: a c f)
qed

lemma stats_result_liked:
  "ps \<noteq> [] \<Longrightarrow> mostLikedPost (getEngagementStats (Some ps)) =
     mostLikedPost (fst (foldl stats_step (initial_stats, 0, 0) ps))"
  by (simp add: getEngagementStats_def split: prod.splits)

lemma stats_result_engaged:
  "ps \<noteq> [] \<Longrightarrow> mostEngagedPost (getEngagementStats (Some ps)) =
     mostEngagedPost (fst (foldl stats_step (initial_stats, 0, 0) ps))"
  by (simp add: getEngagementStats_def split: prod.splits)

text \<open>
  C5, as the code has it. On the absent and on the empty list the statistics are the
  initial ones: all totals and the average are \<open>0\<close> and both winners are \<open>null\<close>. When a
  post \<open>p\<close> has a positive number of likes, every post before it has fewer and no post
  after it has more, \<open>p\<close> is \<open>mostLikedPost\<close>: among posts that tie for a positive maximum
  the first in input order wins. The same holds for \<open>mostEngagedPost\<close> and the total
  engagement.
\<close>

theorem stats_empty_and_first_positive_maximum:
  "getEngagementStats None = initial_stats
   \<and> getEngagementStats (Some []) = initial_stats
   \<and> totalLikes initial_stats = 0 \<and> totalDislikes initial_stats = 0
   \<and> totalEngagement initial_stats = 0 \<and> averageEngagement initial_stats = Finite 0
   \<and> mostLikedPost initial_stats = None \<and> mostEngagedPost initial_stats = None
   \<and> (0 < likes p \<and> (\<forall>q \<in> set xs. likes q < likes p) \<and> (\<forall>q \<in> set ys. likes q \<le> likes p) \<longrightarrow>
        mostLikedPost (getEngagementStats (Some (xs @ p # ys))) = Some p)
   \<and> (0 < getTotalEngagement p \<and> (\<forall>q \<in> set xs. getTotalEngagement q < getTotalEngagement p)
        \<and> (\<forall>q \<in> set ys. getTotalEngagement q \<le> getTotalEngagement p) \<longrightarrow>
        mostEngagedPost (getEngagementStats (Some (xs @ p # ys))) = Some p)"
  using first_maximum_liked [of p xs ys] first_maximum_engaged [of p xs ys]
  by (simp add: stats_result_liked stats_result_engaged)
    (simp add: getEngagementStats_def initial_stats_def)

theorem stats_empty_and_first_positive_maximum_witness:
  "mostLikedPost (getEngagementStats (Some ([demo_post\<lparr>likes := 2\<rparr>] @ demo_post #
      [demo_post\<lparr>post_id := ''3''\<rparr>]))) = Some demo_post
   \<and> mostEngagedPost (getEngagementStats (Some ([demo_post\<lparr>likes := 2\<rparr>] @ demo_post #
      [demo_post\<lparr>post_id := ''3''\<rparr>]))) = Some demo_post"
  using stats_empty_and_first_positive_maximum [of demo_post "[demo_post\<lparr>likes := 2\<rparr>]"
      "[demo_post\<lparr>post_id := ''3''\<rparr>]"]
  by (simp add: demo_post_def getTotalEngagement_def)

text \<open>
  C5, as stated, fails when the maximum is \<open>0\<close>: two posts that tie at zero likes
  leave \<open>mostLikedPost\<close> at \<open>null\<close>; the first of them is not selected.
\<close>

theorem tie_at_zero_selects_nobody:
  "mostLikedPost (getEngagementStats (Some [demo_post\<lparr>likes := 0\<rparr>,
      demo_post\<lparr>post_id := ''2'', likes := 0\<rparr>])) = None
   \<and> mostLikedPost (getEngagementStats (Some [demo_post\<lparr>likes := 0\<rparr>,
      demo_post\<lparr>post_id := ''2'', likes := 0\<rparr>])) \<noteq> Some (demo_post\<lparr>likes := 0\<rparr>)"
  by (simp add: getEngagementStats_def stats_step_def initial_stats_def Let_def
      getTotalEngagement_def demo_post_def)

text \<open>
  C10. For every non-empty list of posts that all have zero likes, \<open>mostLikedPost\<close> is
  \<open>null\<close>; and \<open>mostEngagedPost\<close> is \<open>null\<close> whenever every post has zero total
  engagement.
\<close>

theorem zero_posts_have_no_winner:
  "(ps \<noteq> [] \<and> (\<forall>p \<in> set ps. likes p = 0) \<longrightarrow> mostLikedPost (getEngagementStats (Some ps)) = None)
   \<and> (ps \<noteq> [] \<and> (\<forall>p \<in> set ps. getTotalEngagement p = 0) \<longrightarrow>
        mostEngagedPost (getEngagementStats (Some ps)) = None)"
proof -
  have "mostLikedPost (fst (foldl stats_step (initial_stats, 0, 0) ps)) = mostLikedPost initial_stats"
    if "\<forall>p \<in> set ps. likes p = 0"
    by (rule fold_keeps_liked) (simp add: that)
  moreover have "mostEngagedPost (fst (foldl stats_step (initial_stats, 0, 0) ps)) =
      mostEngagedPost initial_stats"
    if "\<forall>p \<in> set ps. getTotalEngagement p = 0"
    by (rule fold_keeps_engaged) (simp add: that)
  ultimately show ?thesis
    by (auto simp: stats_result_liked stats_result_engaged initial_stats_def)
qed

theorem zero_posts_have_no_winner_witness:
  "mostLikedPost (getEngagementStats (Some [demo_post\<lparr>likes := 0\<rparr>])) = None
   \<and> mostEngagedPost (getEngagementStats (Some [demo_post\<lparr>likes := 0\<rparr>])) = None"
  using zero_posts_have_no_winner [of "[demo_post\<lparr>likes := 0\<rparr>]"]
  by (simp add: demo_post_def getTotalEngagement_def)

subsection \<open>The feed and its cache\<close>

lemma isCacheValid_world:
  "isCacheValid r w = (b, w1) \<Longrightarrow>
     requests w1 = requests w \<and> network w1 = network w \<and> clock w1 = clock w \<and>
     console w1 = console w \<and> null_read_message w1 = null_read_message w"
  by (auto simp: isCacheValid_def Date_now_def Let_def split: option.splits if_splits)

lemma isCacheValid_iff:
  "fst (isCacheValid r w) \<longleftrightarrow>
     (\<exists>ps t. cache r = Some ps \<and> cacheTimestamp r = Some t \<and> t \<noteq> 0 \<and>
        clock w (clock_reads w) - t < cacheExpiry r)"
  by (auto simp: isCacheValid_def Date_now_def Let_def split: option.splits if_splits)

lemma map_photos_world:
  "map_photos raws w = (posts, w') \<Longrightarrow>
     requests w' = requests w \<and> network w' = network w \<and> clock w' = clock w \<and>
     console w' = console w \<and> clock_reads w' = clock_reads w + length raws \<and>
     map post_id posts = map photo_id raws \<and>
     map likes posts = map (\<lambda>d. or_zero (photo_likes d)) raws \<and>
     map dislikes posts = map (\<lambda>d. or_zero (photo_dislikes d)) raws"
proof (induction raws arbitrary: w posts w')
  case Nil
  then show ?case by simp
next
  case (Cons d raws)
  obtain p w1 where a: "new_SocialPost (photo_id d) (Some (JStr (photo_source d)))
      (Some (JStr (photo_thumbnail d))) (photo_title d) (photo_date d) (photo_author d) (or_zero (photo_likes d))
      (or_zero (photo_dislikes d)) w = (p, w1)"
    by (meson surj_pair)
  obtain ps w2 where b: "map_photos raws w1 = (ps, w2)"
    by (meson surj_pair)
  from Cons.prems a b have c: "posts = p # ps" "w' = w2" by simp_all
  from a have d: "requests w1 = requests w" "network w1 = network w" "clock w1 = clock w"
    "console w1 = console w" "clock_reads w1 = Suc (clock_reads w)"
    "post_id p = photo_id d" "likes p = or_zero (photo_likes d)"
    "dislikes p = or_zero (photo_dislikes d)"
    by (auto simp: new_SocialPost_def Date_now_def Let_def)
  from Cons.IH [OF b] c d show ?case by simp
qed

lemma fetchAll_hit:
  "isCacheValid r w = (True, w1) \<Longrightarrow>
   fetchAll (r, w) =
     (Inr (cache r), (r, console_write (Log ''Returning cached social posts'') w1))"
  by (simp add: fetchAll_def try_catch_def fetchAll_body_def)

lemma fetchAll_miss_requests:
  assumes "isCacheValid r w = (False, w1)"
  shows "requests (snd (snd (fetchAll (r, w)))) = requests w @ [dataSource r]"
proof -
  from isCacheValid_world [OF assms] have q: "requests w1 = requests w" by simp
  show ?thesis
    using assms q
    by (auto simp: fetchAll_def try_catch_def fetchAll_body_def Let_def fetch_def
        console_write_def Date_now_def
        split: prod.splits sum.splits feed_payload.splits photos_property.splits
        dest: map_photos_world)
qed

lemma fetchAll_miss_invalid:
  assumes "isCacheValid r w = (False, w1)"
    and "network w (length (requests w)) = Inr (Response True st (Inr payload))"
    and "payload = Payload PhotosMissing \<or> payload = Payload PhotosNotArray"
  shows "fetchAll (r, w) =
     (Inl (Error (''Failed to fetch social posts: '' @ format_message)),
      (r, console_write (LogError ''Error in SocialPostRepository.fetchAll:'' (Error format_message))
            (snd (fetch (dataSource r)
               (console_write (Log (''Fetching social posts from: '' @ dataSource r)) w1)))))"
proof -
  from isCacheValid_world [OF assms(1)] have q: "requests w1 = requests w" "network w1 = network w"
    by simp_all
  show ?thesis
    using assms q
    by (auto simp: fetchAll_def try_catch_def fetchAll_body_def Let_def fetch_def
        console_write_def)
qed

lemma fetchAll_miss_null:
  assumes "isCacheValid r w = (False, w1)"
    and "network w (length (requests w)) = Inr (Response True st (Inr NullPayload))"
  shows "fetchAll (r, w) =
     (Inl (Error (''Failed to fetch social posts: '' @ null_read_message w ''photos'')),
      (r, console_write (LogError ''Error in SocialPostRepository.fetchAll:''
              (TypeError (null_read_message w ''photos'')))
            (snd (fetch (dataSource r)
               (console_write (Log (''Fetching social posts from: '' @ dataSource r)) w1)))))"
proof -
  from isCacheValid_world [OF assms(1)] have q: "requests w1 = requests w" "network w1 = network w"
    "null_read_message w1 = null_read_message w"
    by simp_all
  show ?thesis
    using assms q
    by (auto simp: fetchAll_def try_catch_def fetchAll_body_def Let_def fetch_def
        console_write_def)
qed

lemma fetchAll_miss_ok:
  assumes "isCacheValid r w = (False, w1)"
    and "network w (length (requests w)) = Inr (Response True st (Inr (Payload (PhotosArray raws))))"
  shows "\<exists>posts w'. fetchAll (r, w) =
           (Inr (Some posts), (r\<lparr>cache := Some posts, cacheTimestamp := Some (last_reading w')\<rparr>, w'))
         \<and> map post_id posts = map photo_id raws
         \<and> map likes posts = map (\<lambda>d. or_zero (photo_likes d)) raws
         \<and> map dislikes posts = map (\<lambda>d. or_zero (photo_dislikes d)) raws
         \<and> requests w' = requests w @ [dataSource r]"
proof -
  from isCacheValid_world [OF assms(1)] have q: "requests w1 = requests w" "network w1 = network w"
    by simp_all
  define w3 where "w3 = snd (fetch (dataSource r)
               (console_write (Log (''Fetching social posts from: '' @ dataSource r)) w1))"
  obtain posts w4 where m: "map_photos raws w3 = (posts, w4)" by (meson surj_pair)
  note mw = map_photos_world [OF m]
  have r3: "requests w3 = requests w @ [dataSource r]"
    by (simp add: w3_def fetch_def console_write_def q)
  have "fetchAll (r, w) =
          (Inr (Some posts), (r\<lparr>cache := Some posts, cacheTimestamp := Some (clock w4 (clock_reads w4))\<rparr>,
             w4\<lparr>clock_reads := Suc (clock_reads w4)\<rparr>))"
    using assms q m
    by (simp add: fetchAll_def try_catch_def fetchAll_body_def Let_def fetch_def
        console_write_def Date_now_def w3_def)
  moreover have "last_reading (w4\<lparr>clock_reads := Suc (clock_reads w4)\<rparr>) = clock w4 (clock_reads w4)"
    by (simp add: last_reading_def)
  ultimately show ?thesis using mw r3 by (intro exI [of _ posts] exI [of _ "w4\<lparr>clock_reads := Suc (clock_reads w4)\<rparr>"]) simp
qed

lemma fetchAll_success_fetched:
  assumes "fetchAll (r0, w0) = (Inr (Some posts), (r1, w1))" and "requests w1 \<noteq> requests w0"
  shows "cache r1 = Some posts \<and> cacheTimestamp r1 = Some (last_reading w1) \<and>
         cacheExpiry r1 = cacheExpiry r0 \<and> dataSource r1 = dataSource r0"
proof -
  obtain b wa where v: "isCacheValid r0 w0 = (b, wa)" by (meson surj_pair)
  have nb: "\<not> b"
  proof
    assume b
    with v fetchAll_hit [of r0 w0 wa] assms(1) have "w1 = console_write (Log ''Returning cached social posts'') wa"
      by simp
    with isCacheValid_world [OF v] assms(2) show False by (simp add: console_write_def)
  qed
  from isCacheValid_world [OF v] have q: "requests wa = requests w0" "network wa = network w0"
    by simp_all
  show ?thesis
    using assms(1) v nb q
    by (auto simp: fetchAll_def try_catch_def fetchAll_body_def Let_def fetch_def
        console_write_def Date_now_def last_reading_def
        split: prod.splits sum.splits feed_payload.splits photos_property.splits if_splits)
qed

lemma first_fetch_demo:
  "fetchAll (new_SocialPostRepository, feed_world (Payload (PhotosArray [demo_photo]))) =
     (Inr (Some [demo_post]), (cached_repository, after_first_fetch))"
  by (simp add: fetchAll_def try_catch_def fetchAll_body_def isCacheValid_def
      new_SocialPostRepository_def feed_world_def fetch_def console_write_def Date_now_def
      new_SocialPost_def demo_photo_def demo_post_def demo_author_def or_zero_def
      demo_clock_def cached_repository_def after_first_fetch_def Let_def)

lemma stale_stays_stale:
  assumes "\<not> fst (isCacheValid r w)" "clock w (clock_reads w) \<le> clock w2 (clock_reads w2)"
  shows "\<not> fst (isCacheValid r w2)"
  using assms by (auto simp: isCacheValid_iff)

text \<open>
  C3. Let a call of \<open>fetchAll\<close> have gone to the network and returned \<open>posts\<close>; it
  leaves \<open>posts\<close> in the cache, stamped with the reading of the clock taken last. A
  later call on the same repository, in any world \<open>w\<close>, reads the clock once more. If
  less than 5 minutes have elapsed since the stamp, it returns the cached sequence, leaves
  the repository as it is and requests nothing. If 5 minutes or more have elapsed, it
  requests the data source again, and when that response is a success with a
  \<open>photos\<close> array it returns the new sequence and stores it in the cache with the
  current reading of the clock. The stamp is tested for truthiness, so it must not be the
  number \<open>0\<close>: the clock counts milliseconds since 1970.
\<close>

theorem cache_ttl:
  assumes first: "fetchAll (r0, w0) = (Inr (Some posts), (r1, w1))"
    and fetched: "requests w1 \<noteq> requests w0"
    and ttl: "cacheExpiry r0 = 5 * 60 * 1000"
  shows "cache r1 = Some posts \<and> cacheTimestamp r1 = Some (last_reading w1)
     \<and> (last_reading w1 \<noteq> 0 \<and> clock w (clock_reads w) - last_reading w1 < 5 * 60 * 1000 \<longrightarrow>
          (\<exists>w'. fetchAll (r1, w) = (Inr (Some posts), (r1, w')) \<and> requests w' = requests w))
     \<and> (5 * 60 * 1000 \<le> clock w (clock_reads w) - last_reading w1 \<longrightarrow>
          requests (snd (snd (fetchAll (r1, w)))) = requests w @ [dataSource r1])
     \<and> (5 * 60 * 1000 \<le> clock w (clock_reads w) - last_reading w1 \<and>
        network w (length (requests w)) = Inr (Response True st (Inr (Payload (PhotosArray raws)))) \<longrightarrow>
          (\<exists>posts' w'. fetchAll (r1, w) =
              (Inr (Some posts'),
               (r1\<lparr>cache := Some posts', cacheTimestamp := Some (last_reading w')\<rparr>, w'))
            \<and> map post_id posts' = map photo_id raws
            \<and> requests w' = requests w @ [dataSource r1]))"
proof -
  note s = fetchAll_success_fetched [OF first fetched]
  from s ttl have e: "cacheExpiry r1 = 5 * 60 * 1000" by simp
  have hit: "\<exists>w'. fetchAll (r1, w) = (Inr (Some posts), (r1, w')) \<and> requests w' = requests w"
    if "last_reading w1 \<noteq> 0" "clock w (clock_reads w) - last_reading w1 < 5 * 60 * 1000"
  proof -
    from that s e have "fst (isCacheValid r1 w)" by (simp add: isCacheValid_iff)
    then obtain wa where v: "isCacheValid r1 w = (True, wa)" by (cases "isCacheValid r1 w") auto
    from fetchAll_hit [OF v] isCacheValid_world [OF v] s show ?thesis
      by (simp add: console_write_def)
  qed
  have miss: "\<exists>wa. isCacheValid r1 w = (False, wa)"
    if "5 * 60 * 1000 \<le> clock w (clock_reads w) - last_reading w1"
  proof -
    from that s e have "\<not> fst (isCacheValid r1 w)" by (simp add: isCacheValid_iff)
    then show ?thesis by (cases "isCacheValid r1 w") auto
  qed
  have again: "requests (snd (snd (fetchAll (r1, w)))) = requests w @ [dataSource r1]"
    if "5 * 60 * 1000 \<le> clock w (clock_reads w) - last_reading w1"
    using miss [OF that] fetchAll_miss_requests by blast
  have replaced: "\<exists>posts' w'. fetchAll (r1, w) =
              (Inr (Some posts'),
               (r1\<lparr>cache := Some posts', cacheTimestamp := Some (last_reading w')\<rparr>, w'))
            \<and> map post_id posts' = map photo_id raws
            \<and> requests w' = requests w @ [dataSource r1]"
    if "5 * 60 * 1000 \<le> clock w (clock_reads w) - last_reading w1"
      "network w (length (requests w)) = Inr (Response True st (Inr (Payload (PhotosArray raws))))"
  proof -
    from miss [OF that(1)] obtain wa where v: "isCacheValid r1 w = (False, wa)" ..
    from fetchAll_miss_ok [OF v that(2)] show ?thesis by blast
  qed
  from s hit again replaced show ?thesis by blast
qed

theorem cache_ttl_witness:
  "(\<exists>w'. fetchAll (cached_repository, after_first_fetch) =
           (Inr (Some [demo_post]), (cached_repository, w'))
         \<and> requests w' = requests after_first_fetch)
   \<and> (\<exists>posts' w'. fetchAll (cached_repository, after_first_fetch\<lparr>clock_reads := 400\<rparr>) =
           (Inr (Some posts'),
            (cached_repository\<lparr>cache := Some posts', cacheTimestamp := Some (last_reading w')\<rparr>, w'))
         \<and> map post_id posts' = map photo_id [demo_photo]
         \<and> requests w' =
             requests (after_first_fetch\<lparr>clock_reads := 400\<rparr>) @ [dataSource cached_repository])"
proof -
  have a: "requests after_first_fetch \<noteq> requests (feed_world (Payload (PhotosArray [demo_photo])))"
    by (simp add: after_first_fetch_def feed_world_def)
  have b: "cacheExpiry new_SocialPostRepository = 5 * 60 * 1000"
    by (simp add: new_SocialPostRepository_def)
  have l: "last_reading after_first_fetch = 1704067201000"
    by (simp add: last_reading_def after_first_fetch_def feed_world_def demo_clock_def)
  have c: "clock after_first_fetch (clock_reads after_first_fetch) = 1704067202000"
    "clock (after_first_fetch\<lparr>clock_reads := 400\<rparr>)
       (clock_reads (after_first_fetch\<lparr>clock_reads := 400\<rparr>)) = 1704067600000"
    by (simp_all add: after_first_fetch_def feed_world_def demo_clock_def)
  have n: "network (after_first_fetch\<lparr>clock_reads := 400\<rparr>)
             (length (requests (after_first_fetch\<lparr>clock_reads := 400\<rparr>))) =
           Inr (Response True 200 (Inr (Payload (PhotosArray [demo_photo]))))"
    by (simp add: after_first_fetch_def feed_world_def)
  note t = cache_ttl [OF first_fetch_demo a b]
  from t [of after_first_fetch] l c have
    "\<exists>w'. fetchAll (cached_repository, after_first_fetch) =
           (Inr (Some [demo_post]), (cached_repository, w'))
         \<and> requests w' = requests after_first_fetch"
    by simp
  moreover from t [of "after_first_fetch\<lparr>clock_reads := 400\<rparr>" 200 "[demo_photo]"] l c n have
    "\<exists>posts' w'. fetchAll (cached_repository, after_first_fetch\<lparr>clock_reads := 400\<rparr>) =
           (Inr (Some posts'),
            (cached_repository\<lparr>cache := Some posts', cacheTimestamp := Some (last_reading w')\<rparr>, w'))
         \<and> map post_id posts' = map photo_id [demo_photo]
         \<and> requests w' =
             requests (after_first_fetch\<lparr>clock_reads := 400\<rparr>) @ [dataSource cached_repository]"
    by simp
  ultimately show ?thesis by blast
qed

text \<open>
  A payload other than \<open>null\<close> that has no \<open>photos\<close> array fails the format check:
  the call throws the error of the repository with the data-format message, the
  repository is unchanged, and a later call (in a world \<open>w2\<close> whose clock does not read
  earlier) requests the data source again.
\<close>

lemma format_error_not_cached:
  assumes miss: "\<not> fst (isCacheValid r w)"
    and resp: "network w (length (requests w)) = Inr (Response True st (Inr payload))"
    and lacks: "payload = Payload PhotosMissing \<or> payload = Payload PhotosNotArray"
    and later: "clock w (clock_reads w) \<le> clock w2 (clock_reads w2)"
  shows "(\<exists>w'. fetchAll (r, w) =
            (Inl (Error (''Failed to fetch social posts: '' @ format_message)), (r, w'))
          \<and> requests w' = requests w @ [dataSource r])
       \<and> requests (snd (snd (fetchAll (r, w2)))) = requests w2 @ [dataSource r]"
proof -
  from miss obtain wa where v: "isCacheValid r w = (False, wa)"
    by (cases "isCacheValid r w") auto
  from stale_stays_stale [OF miss later] obtain wb where v2: "isCacheValid r w2 = (False, wb)"
    by (cases "isCacheValid r w2") auto
  note q = fetchAll_miss_requests [OF v]
  from fetchAll_miss_invalid [OF v resp lacks] have
    "\<exists>w'. fetchAll (r, w) =
            (Inl (Error (''Failed to fetch social posts: '' @ format_message)), (r, w'))"
    by auto
  with q fetchAll_miss_requests [OF v2] show ?thesis by auto
qed

text \<open>
  The payload \<open>null\<close> has no \<open>photos\<close> array either, but on it the format check itself
  throws: \<open>!data.photos\<close> reads a property of \<open>null\<close>. In every world the call throws the
  error of the repository with the message of that \<open>TypeError\<close>, and leaves the
  repository unchanged.
\<close>

lemma null_payload_wraps_type_error:
  assumes miss: "\<not> fst (isCacheValid r w)"
    and resp: "network w (length (requests w)) = Inr (Response True st (Inr NullPayload))"
  shows "\<exists>w'. fetchAll (r, w) =
            (Inl (Error (''Failed to fetch social posts: '' @ null_read_message w ''photos'')),
             (r, w'))
          \<and> last (console w') =
              LogError ''Error in SocialPostRepository.fetchAll:''
                (TypeError (null_read_message w ''photos''))"
proof -
  from miss obtain wa where v: "isCacheValid r w = (False, wa)"
    by (cases "isCacheValid r w") auto
  from fetchAll_miss_null [OF v resp] show ?thesis
    by (auto simp: console_write_def)
qed

text \<open>
  C4. On a response whose payload is \<open>null\<close>, \<open>fetchAll\<close> does not throw the data-format
  error: the error it throws carries the message of the \<open>TypeError\<close> of reading
  \<open>photos\<close> of \<open>null\<close>, and the console shows that \<open>TypeError\<close> as the cause. The payload
  without a \<open>photos\<close> property, next to it, gets the data-format error. The repository is
  unchanged.
\<close>

theorem null_payload_raises_type_error:
  "fetchAll (new_SocialPostRepository, feed_world NullPayload) =
     (Inl (Error (''Failed to fetch social posts: '' @ demo_null_read_message ''photos'')),
      (new_SocialPostRepository,
       (feed_world NullPayload)
         \<lparr> requests := [''./data/social-posts.json''],
           console := [Log ''Fetching social posts from: ./data/social-posts.json'',
                       LogError ''Error in SocialPostRepository.fetchAll:''
                         (TypeError (demo_null_read_message ''photos''))] \<rparr>))
   \<and> fst (fetchAll (new_SocialPostRepository, feed_world NullPayload)) \<noteq>
       Inl (Error (''Failed to fetch social posts: '' @ format_message))
   \<and> fst (fetchAll (new_SocialPostRepository, feed_world (Payload PhotosMissing))) =
       Inl (Error (''Failed to fetch social posts: '' @ format_message))"
  by (simp add: fetchAll_def try_catch_def fetchAll_body_def isCacheValid_def
      new_SocialPostRepository_def feed_world_def fetch_def console_write_def Let_def
      demo_null_read_message_def format_message_def)

subsection \<open>The randomized source\<close>

















end
